theory Spec2Isabelle
  imports Main
begin

section \<open>Strings of the phone API\<close>

text \<open>
  The embedding follows \<^verbatim>\<open>src/api/phone.js\<close>. A JavaScript string is a
  \<^typ>\<open>string\<close>; a character stands for a code unit below 256. Code units above
  that are neither digits nor kept by any step of the normaliser (the second
  \<^verbatim>\<open>replace\<close> deletes every non-digit), so they behave like any other
  non-digit character of the model.
\<close>

definition isDigit :: "char \<Rightarrow> bool" where
  \<comment> \<open>the regular expression class \<^verbatim>\<open>\d\<close>\<close>
  "isDigit c = (c \<in> set ''0123456789'')"

definition isSpace :: "char \<Rightarrow> bool" where
  \<comment> \<open>the class \<^verbatim>\<open>\s\<close> below code unit 256: TAB, LF, VT, FF, CR, space, NBSP\<close>
  "isSpace c = (c \<in> set [CHR 0x09, CHR 0x0A, CHR 0x0B, CHR 0x0C, CHR 0x0D, CHR '' '', CHR 0xA0])"

definition isSeparator :: "char \<Rightarrow> bool" where
  \<comment> \<open>the class \<^verbatim>\<open>[\s\-\(\)\+]\<close> of line 40\<close>
  "isSeparator c = (isSpace c \<or> c \<in> set ''-()+'')"

definition startsWith :: "string \<Rightarrow> string \<Rightarrow> bool" where
  "startsWith s p = (take (length p) s = p)"

definition substring :: "string \<Rightarrow> nat \<Rightarrow> string" where
  \<comment> \<open>\<^verbatim>\<open>s.substring(n)\<close>: a start beyond the end is clamped, giving the empty string\<close>
  "substring s n = drop n s"

definition substring2 :: "string \<Rightarrow> nat \<Rightarrow> nat \<Rightarrow> string" where
  \<comment> \<open>\<^verbatim>\<open>s.substring(i, j)\<close> for \<open>i \<le> j\<close>, both clamped to the length\<close>
  "substring2 s i j = take (j - i) (drop i s)"

definition padStart :: "string \<Rightarrow> nat \<Rightarrow> char \<Rightarrow> string" where
  "padStart s n c = replicate (n - length s) c @ s"

section \<open>The normaliser\<close>

definition countryCode :: string where "countryCode = ''54''"
definition mobilePrefix :: string where "mobilePrefix = ''9''"
definition defaultAreaCode :: string where "defaultAreaCode = ''11''"

definition cleanInput :: "string \<Rightarrow> string" where
  \<comment> \<open>lines 40 and 43: drop the separators, then everything that is not a digit\<close>
  "cleanInput phoneNumber = filter isDigit (filter (\<lambda>c. \<not> isSeparator c) phoneNumber)"

definition handleCountryCode :: "string \<Rightarrow> string" where
  \<comment> \<open>lines 58 to 74 (Paso 1)\<close>
  "handleCountryCode digits =
     (if startsWith digits ''54'' then substring digits 2
      else if startsWith digits ''5'' then substring (''54'' @ substring digits 1) 2
      else substring (countryCode @ digits) 2)"

definition handleMobilePrefix :: "string \<Rightarrow> string" where
  \<comment> \<open>lines 78 to 85 (Paso 2)\<close>
  "handleMobilePrefix digits =
     (if startsWith digits ''9'' then substring digits 1
      else substring (mobilePrefix @ digits) 1)"

definition splitAreaCode :: "string \<Rightarrow> string \<times> string" where
  \<comment> \<open>lines 89 to 107: the pair (areaCode, localNumber)\<close>
  "splitAreaCode digits =
     (if length digits \<ge> 10 then (substring2 digits 0 2, substring digits 2)
      else if length digits \<ge> 6 \<and> length digits < 10 then (defaultAreaCode, digits)
      else (defaultAreaCode, digits))"

definition fitLocalNumber :: "string \<Rightarrow> string" where
  \<comment> \<open>lines 112 to 117: the last 8 characters, or zeros in front up to 8\<close>
  "fitLocalNumber localNumber =
     (if length localNumber > 8 then substring localNumber (length localNumber - 8)
      else if length localNumber < 8 then padStart localNumber 8 CHR ''0''
      else localNumber)"

definition normalizePhoneNumber :: "string \<Rightarrow> string" where
  "normalizePhoneNumber phoneNumber =
     (if phoneNumber = [] then []
      else
        let cleaned = cleanInput phoneNumber in
        if cleaned = [] then []
        else
          let digits = handleMobilePrefix (handleCountryCode cleaned);
              (areaCode, localNumber) = splitAreaCode digits
          in countryCode @ mobilePrefix @ areaCode @ fitLocalNumber localNumber)"

section \<open>Numbers and their decimal text\<close>

text \<open>
  The counter is a JavaScript number. \<open>Num n\<close> stands for the double with the
  integer value \<open>n\<close>, which is exact for magnitudes up to \<open>2 ^ 53\<close>; the
  theorems about the counter stay inside that range. \<open>NaN\<close> is what
  \<^verbatim>\<open>parseInt\<close> returns on text with no leading digits.
\<close>

datatype jsnum = NaN | Num int

definition digitVal :: "char \<Rightarrow> nat" where
  "digitVal c = of_char c - 48"

definition digitChar :: "nat \<Rightarrow> char" where
  "digitChar d = ''0123456789'' ! d"

definition digitsValue :: "string \<Rightarrow> nat" where
  "digitsValue ds = foldl (\<lambda>a c. 10 * a + digitVal c) 0 ds"

definition parseInt10 :: "string \<Rightarrow> jsnum" where
  \<comment> \<open>\<^verbatim>\<open>parseInt(s, 10)\<close>: leading white space, an optional sign, the longest run of digits\<close>
  "parseInt10 s =
     (let t = dropWhile isSpace s;
          (negative, t) =
             (case t of
                [] \<Rightarrow> (False, [])
              | c # r \<Rightarrow> if c = CHR ''-'' then (True, r)
                         else if c = CHR ''+'' then (False, r) else (False, t));
          ds = takeWhile isDigit t
      in if ds = [] then NaN
         else Num (if negative then - int (digitsValue ds) else int (digitsValue ds)))"

function decimal :: "nat \<Rightarrow> string" where
  "decimal n = (if n < 10 then [digitChar n] else decimal (n div 10) @ [digitChar (n mod 10)])"
  by pat_completeness auto
termination
  by (relation "measure id") auto

declare decimal.simps [simp del]

definition numToString :: "jsnum \<Rightarrow> string" where
  \<comment> \<open>\<^verbatim>\<open>n.toString()\<close> of an integer-valued number below \<open>10 ^ 21\<close> in magnitude\<close>
  "numToString x =
     (case x of
        NaN \<Rightarrow> ''NaN''
      | Num n \<Rightarrow> if n < 0 then CHR ''-'' # decimal (nat (- n)) else decimal (nat n))"

definition plusOne :: "jsnum \<Rightarrow> jsnum" where
  "plusOne x = (case x of NaN \<Rightarrow> NaN | Num n \<Rightarrow> Num (n + 1))"

definition truthy :: "string option \<Rightarrow> bool" where
  \<comment> \<open>a value that is \<^verbatim>\<open>undefined\<close>, \<^verbatim>\<open>null\<close> or the empty string is falsy\<close>
  "truthy v = (case v of None \<Rightarrow> False | Some s \<Rightarrow> s \<noteq> [])"

definition orElse :: "string option \<Rightarrow> string \<Rightarrow> string" where
  \<comment> \<open>\<^verbatim>\<open>v || d\<close>\<close>
  "orElse v d = (case v of None \<Rightarrow> d | Some s \<Rightarrow> if s = [] then d else s)"

definition trim :: "string \<Rightarrow> string" where
  "trim s = rev (dropWhile isSpace (rev (dropWhile isSpace s)))"

section \<open>Configuration, requests and responses\<close>

record env =
  REDIS_URL :: "string option"
  REDIS_NAMESPACE :: "string option"
  PHONE_NUMBER :: "string option"
  WHATSAPP_MESSAGE :: "string option"
  ADMIN_PASSWORD :: "string option"

text \<open>
  The body of a POST request. The fields are strings when present, as in section 6 of
  the specification; \<open>reset\<close> holds the outcome of \<^verbatim>\<open>reset === true\<close>.
\<close>

record post_body =
  phone :: "string option"
  password :: "string option"
  reset :: bool

text \<open>The field \<open>httpMethod\<close> is \<^verbatim>\<open>req.method\<close>.\<close>

record request =
  httpMethod :: string
  host :: "string option"
  body :: "post_body option"

datatype failure =
    WrongPassword                \<comment> \<open>401\<close>
  | PhoneRequired                \<comment> \<open>400, line 220\<close>
  | InvalidPhone                 \<comment> \<open>400, line 228\<close>
  | ResetFailed string           \<comment> \<open>500, line 207, with the cause\<close>
  | ResetNoRedis                 \<comment> \<open>500, line 212\<close>
  | SaveFailed string            \<comment> \<open>500, line 257, with the cause\<close>
  | RedisNotInitialised          \<comment> \<open>500, line 265\<close>
  | RedisNotConfigured           \<comment> \<open>500, line 266\<close>
  | UpdateError                  \<comment> \<open>500, line 271\<close>
  | MethodNotAllowed             \<comment> \<open>405\<close>

datatype payload =
    NoContent
  | ReadOk string string jsnum   \<comment> \<open>phone, message, changeCount\<close>
  | ResetOk jsnum                \<comment> \<open>changeCount\<close>
  | UpdateOk jsnum string        \<comment> \<open>changeCount, normalizedPhone\<close>
  | Failure failure

record response =
  status :: nat
  payload :: payload

section \<open>The Redis client\<close>

text \<open>
  The client holds the keys of the store. Whether a call throws is not decided by the
  handler: \<open>faults\<close> lists the outcome of the calls to come, one entry per call (none
  left means the call succeeds). A call that throws leaves the keys as they were.
  \<open>calls\<close> records every call made.
\<close>

datatype fault = Succeeds | Throws string

datatype call = CallGet string | CallSet string string

record client =
  kv :: "string \<rightharpoonup> string"
  faults :: "fault list"
  calls :: "call list"

definition nextFault :: "client \<Rightarrow> fault" where
  "nextFault c = (case faults c of [] \<Rightarrow> Succeeds | f # _ \<Rightarrow> f)"

definition called :: "call \<Rightarrow> client \<Rightarrow> client" where
  "called x c = c\<lparr>faults := tl (faults c), calls := calls c @ [x]\<rparr>"

definition redis_get :: "string \<Rightarrow> client \<Rightarrow> (string + string option) \<times> client" where
  "redis_get k c =
     (case nextFault c of
        Throws m \<Rightarrow> (Inl m, called (CallGet k) c)
      | Succeeds \<Rightarrow> (Inr (kv c k), called (CallGet k) c))"

definition redis_set :: "string \<Rightarrow> string \<Rightarrow> client \<Rightarrow> (string + unit) \<times> client" where
  "redis_set k v c =
     (case nextFault c of
        Throws m \<Rightarrow> (Inl m, called (CallSet k v) c)
      | Succeeds \<Rightarrow> (Inr (), (called (CallSet k v) c)\<lparr>kv := (kv c)(k \<mapsto> v)\<rparr>))"

section \<open>The request handler\<close>

text \<open>
  The handler takes the configuration, the request and the module's \<^verbatim>\<open>redis\<close>
  handle (\<open>None\<close> when no client was created) and returns the response with the
  handle after the calls. The CORS headers and the console output are left out; the
  texts of the error messages are the constructors of \<open>failure\<close>.
\<close>

definition getRedisNamespace :: "env \<Rightarrow> request \<Rightarrow> string" where
  "getRedisNamespace e req =
     (let ns = trim (orElse (REDIS_NAMESPACE e) []) in
      if ns \<noteq> [] then ns
      else
        let h = trim (orElse (host req) []) in
        if h \<noteq> [] then ''host:'' @ h else ''default'')"

definition phoneKey :: "string \<Rightarrow> string" where
  "phoneKey ns = ns @ '':phone_number''"

definition countKey :: "string \<Rightarrow> string" where
  "countKey ns = ns @ '':change_count''"

definition defaultPhone :: "env \<Rightarrow> string" where
  "defaultPhone e = orElse (PHONE_NUMBER e) ''5491157552283''"

definition defaultMessage :: "env \<Rightarrow> string" where
  \<comment> \<open>line 171; the two characters outside ASCII are written by their code units\<close>
  "defaultMessage e =
     orElse (WHATSAPP_MESSAGE e)
       (CHR 0xA1 # ''Buen4s!%20Me%20gust4r'' @ CHR 0xED #
        ''4%20cre4r%20un%20usu4rio.%20Mi%20nombre%20es:'')"

definition adminPassword :: "env \<Rightarrow> string" where
  \<comment> \<open>line 189\<close>
  "adminPassword e = orElse (ADMIN_PASSWORD e) ''admin123''"

definition readCount :: "string option \<Rightarrow> jsnum" where
  \<comment> \<open>line 162: \<^verbatim>\<open>countStr ? parseInt(countStr, 10) : 0\<close>\<close>
  "readCount countStr =
     (case countStr of
        None \<Rightarrow> Num 0
      | Some s \<Rightarrow> if s = [] then Num 0 else parseInt10 s)"

definition nextCount :: "string option \<Rightarrow> jsnum" where
  \<comment> \<open>line 245: \<^verbatim>\<open>currentCount ? parseInt(currentCount, 10) + 1 : 1\<close>\<close>
  "nextCount currentCount =
     (case currentCount of
        None \<Rightarrow> Num 1
      | Some s \<Rightarrow> if s = [] then Num 1 else plusOne (parseInt10 s))"

definition handleGet :: "env \<Rightarrow> request \<Rightarrow> client option \<Rightarrow> response \<times> client option" where
  \<comment> \<open>lines 151 to 182; nothing inside the outer \<^verbatim>\<open>try\<close> can throw\<close>
  "handleGet e req redis =
     (let (phoneNumber, changeCount, redis') =
            (case redis of
               None \<Rightarrow> (None, Num 0, None)
             | Some c \<Rightarrow>
                 let ns = getRedisNamespace e req in
                 (case redis_get (phoneKey ns) c of
                    (Inl err, c1) \<Rightarrow> (None, Num 0, Some c1)
                  | (Inr stored, c1) \<Rightarrow>
                      (case redis_get (countKey ns) c1 of
                         (Inl err, c2) \<Rightarrow> (stored, Num 0, Some c2)
                       | (Inr countStr, c2) \<Rightarrow> (stored, readCount countStr, Some c2))));
          phoneNumber = orElse phoneNumber (defaultPhone e);
          message = defaultMessage e
      in (\<lparr>status = 200, payload = ReadOk phoneNumber message changeCount\<rparr>, redis'))"

definition handleReset :: "env \<Rightarrow> request \<Rightarrow> client option \<Rightarrow> response \<times> client option" where
  \<comment> \<open>lines 195 to 216\<close>
  "handleReset e req redis =
     (case redis of
        None \<Rightarrow> (\<lparr>status = 500, payload = Failure ResetNoRedis\<rparr>, None)
      | Some c \<Rightarrow>
          let ns = getRedisNamespace e req in
          (case redis_set (countKey ns) ''0'' c of
             (Inl err, c1) \<Rightarrow>
               (\<lparr>status = 500,
                 payload = Failure (ResetFailed (orElse (Some err) ''Error desconocido''))\<rparr>,
                Some c1)
           | (Inr u, c1) \<Rightarrow> (\<lparr>status = 200, payload = ResetOk (Num 0)\<rparr>, Some c1)))"

definition saveFailed :: "string \<Rightarrow> response" where
  "saveFailed err =
     \<lparr>status = 500, payload = Failure (SaveFailed (orElse (Some err) ''Error desconocido''))\<rparr>"

definition handleUpdate ::
  "env \<Rightarrow> request \<Rightarrow> string option \<Rightarrow> client option \<Rightarrow> response \<times> client option" where
  \<comment> \<open>lines 218 to 268\<close>
  "handleUpdate e req phoneText redis =
     (if \<not> truthy phoneText then (\<lparr>status = 400, payload = Failure PhoneRequired\<rparr>, redis)
      else
        let normalizedPhone = normalizePhoneNumber (orElse phoneText []) in
        if length normalizedPhone \<noteq> 13
        then (\<lparr>status = 400, payload = Failure InvalidPhone\<rparr>, redis)
        else
          (case redis of
             None \<Rightarrow>
               (\<lparr>status = 500,
                 payload = Failure (if truthy (REDIS_URL e) then RedisNotInitialised
                                    else RedisNotConfigured)\<rparr>, None)
           | Some c \<Rightarrow>
               let ns = getRedisNamespace e req in
               (case redis_set (phoneKey ns) normalizedPhone c of
                  (Inl err, c1) \<Rightarrow> (saveFailed err, Some c1)
                | (Inr u, c1) \<Rightarrow>
                    (case redis_get (countKey ns) c1 of
                       (Inl err, c2) \<Rightarrow> (saveFailed err, Some c2)
                     | (Inr currentCount, c2) \<Rightarrow>
                         let newCount = nextCount currentCount in
                         (case redis_set (countKey ns) (numToString newCount) c2 of
                            (Inl err, c3) \<Rightarrow> (saveFailed err, Some c3)
                          | (Inr u, c3) \<Rightarrow>
                              (\<lparr>status = 200, payload = UpdateOk newCount normalizedPhone\<rparr>,
                               Some c3))))))"

definition handlePost :: "env \<Rightarrow> request \<Rightarrow> client option \<Rightarrow> response \<times> client option" where
  \<comment> \<open>lines 184 to 273; destructuring a missing body throws into the outer \<^verbatim>\<open>catch\<close>\<close>
  "handlePost e req redis =
     (case body req of
        None \<Rightarrow> (\<lparr>status = 500, payload = Failure UpdateError\<rparr>, redis)
      | Some b \<Rightarrow>
          if password b \<noteq> Some (adminPassword e)
          then (\<lparr>status = 401, payload = Failure WrongPassword\<rparr>, redis)
          else if reset b then handleReset e req redis
          else handleUpdate e req (phone b) redis)"

definition handler :: "env \<Rightarrow> request \<Rightarrow> client option \<Rightarrow> response \<times> client option" where
  "handler e req redis =
     (if httpMethod req = ''OPTIONS'' then (\<lparr>status = 200, payload = NoContent\<rparr>, redis)
      else if httpMethod req = ''GET'' then handleGet e req redis
      else if httpMethod req = ''POST'' then handlePost e req redis
      else (\<lparr>status = 405, payload = Failure MethodNotAllowed\<rparr>, redis))"

section \<open>Observing requests and the stored record\<close>

definition isUpdate :: "request \<Rightarrow> bool" where
  \<comment> \<open>a POST with a body that does not ask for a reset\<close>
  "isUpdate req =
     (httpMethod req = ''POST'' \<and> (case body req of None \<Rightarrow> False | Some b \<Rightarrow> \<not> reset b))"

definition isReset :: "request \<Rightarrow> bool" where
  "isReset req =
     (httpMethod req = ''POST'' \<and> (case body req of None \<Rightarrow> False | Some b \<Rightarrow> reset b))"

definition suppliedPhone :: "request \<Rightarrow> string option" where
  "suppliedPhone req = (case body req of None \<Rightarrow> None | Some b \<Rightarrow> phone b)"

definition suppliedPassword :: "request \<Rightarrow> string option" where
  "suppliedPassword req = (case body req of None \<Rightarrow> None | Some b \<Rightarrow> password b)"

definition storedPhone :: "env \<Rightarrow> request \<Rightarrow> client option \<Rightarrow> string option" where
  \<comment> \<open>the text under the request's \<^verbatim>\<open>phone_number\<close> key\<close>
  "storedPhone e req redis =
     (case redis of None \<Rightarrow> None | Some c \<Rightarrow> kv c (phoneKey (getRedisNamespace e req)))"

definition storedCount :: "env \<Rightarrow> request \<Rightarrow> client option \<Rightarrow> string option" where
  \<comment> \<open>the text under the request's \<^verbatim>\<open>change_count\<close> key\<close>
  "storedCount e req redis =
     (case redis of None \<Rightarrow> None | Some c \<Rightarrow> kv c (countKey (getRedisNamespace e req)))"

definition callsMade :: "client option \<Rightarrow> call list" where
  "callsMade redis = (case redis of None \<Rightarrow> [] | Some c \<Rightarrow> calls c)"

definition failsDuringRead :: "client option \<Rightarrow> bool" where
  \<comment> \<open>no store, or one of the two calls of a read throws\<close>
  "failsDuringRead redis =
     (case redis of
        None \<Rightarrow> True
      | Some c \<Rightarrow>
          (case faults c of
             Throws m # fs \<Rightarrow> True
           | Succeeds # Throws m # fs \<Rightarrow> True
           | _ \<Rightarrow> False))"

definition firstCallSucceeds :: "client option \<Rightarrow> bool" where
  \<comment> \<open>there is a store and its next call returns\<close>
  "firstCallSucceeds redis =
     (case redis of None \<Rightarrow> False | Some c \<Rightarrow> nextFault c = Succeeds)"

definition safeCount :: "int \<Rightarrow> bool" where
  \<comment> \<open>a counter that a double holds exactly, together with its successor\<close>
  "safeCount n = (0 \<le> n \<and> n < 2 ^ 53)"

subsection \<open>Example inputs\<close>

definition env0 :: env where
  "env0 = \<lparr>REDIS_URL = Some ''redis://store'', REDIS_NAMESPACE = Some ''casino'',
            PHONE_NUMBER = None, WHATSAPP_MESSAGE = Some ''Hola'', ADMIN_PASSWORD = None\<rparr>"

definition emptyStore :: client where
  "emptyStore = \<lparr>kv = Map.empty, faults = [], calls = []\<rparr>"

definition usedStore :: client where
  "usedStore =
     \<lparr>kv = [''casino:phone_number'' \<mapsto> ''5491143443600'', ''casino:change_count'' \<mapsto> ''5''],
      faults = [], calls = []\<rparr>"

definition flakyStore :: client where
  \<comment> \<open>the first call returns, the second one throws\<close>
  "flakyStore = usedStore\<lparr>faults := [Succeeds, Throws ''ECONNRESET'']\<rparr>"

definition downStore :: client where
  \<comment> \<open>the first call throws\<close>
  "downStore = usedStore\<lparr>faults := [Throws ''ECONNREFUSED'']\<rparr>"

definition updateRequest :: "string \<Rightarrow> string \<Rightarrow> request" where
  "updateRequest pw ph =
     \<lparr>httpMethod = ''POST'', host = Some ''example.org'',
      body = Some \<lparr>phone = Some ph, password = Some pw, reset = False\<rparr>\<rparr>"

definition resetRequest :: "string \<Rightarrow> request" where
  "resetRequest pw =
     \<lparr>httpMethod = ''POST'', host = Some ''example.org'',
      body = Some \<lparr>phone = None, password = Some pw, reset = True\<rparr>\<rparr>"

definition getRequest :: request where
  "getRequest = \<lparr>httpMethod = ''GET'', host = Some ''example.org'', body = None\<rparr>"

section \<open>Unfolding rules\<close>

lemmas normalize_steps =
  normalizePhoneNumber_def cleanInput_def handleCountryCode_def handleMobilePrefix_def
  splitAreaCode_def fitLocalNumber_def startsWith_def substring_def substring2_def
  padStart_def countryCode_def mobilePrefix_def defaultAreaCode_def isDigit_def
  isSeparator_def isSpace_def

lemmas example_inputs = env0_def emptyStore_def usedStore_def flakyStore_def downStore_def
  updateRequest_def resetRequest_def getRequest_def

lemmas handler_steps = handler_def handlePost_def handleGet_def handleReset_def handleUpdate_def
  saveFailed_def redis_get_def redis_set_def called_def nextFault_def getRedisNamespace_def
  phoneKey_def countKey_def adminPassword_def defaultPhone_def defaultMessage_def
  readCount_def nextCount_def plusOne_def truthy_def orElse_def trim_def
  parseInt10_def digitsValue_def digitVal_def numToString_def decimal.simps digitChar_def

lemmas observers = isUpdate_def isReset_def suppliedPhone_def suppliedPassword_def
  storedPhone_def storedCount_def callsMade_def failsDuringRead_def firstCallSucceeds_def
  safeCount_def

lemma replicate_numeral_step: "replicate (numeral k) x = x # replicate (pred_numeral k) x"
  by (simp add: numeral_eq_Suc)

lemmas eval_simps = example_inputs handler_steps normalize_steps observers Let_def
  replicate_numeral_step

section \<open>The shape of a normalised number\<close>

lemma digit_not_separator: "isDigit c \<Longrightarrow> \<not> isSeparator c"
  unfolding isDigit_def isSeparator_def isSpace_def by auto

lemma cleanInput_filter: "cleanInput s = filter isDigit s"
  unfolding cleanInput_def
  by (induction s) (simp_all add: digit_not_separator)

lemma digits_drop: "list_all isDigit ds \<Longrightarrow> list_all isDigit (drop n ds)"
  by (auto simp: list_all_iff dest: in_set_dropD)

lemma digits_take: "list_all isDigit ds \<Longrightarrow> list_all isDigit (take n ds)"
  by (auto simp: list_all_iff dest: in_set_takeD)

lemma digits_handleCountryCode: "list_all isDigit ds \<Longrightarrow> list_all isDigit (handleCountryCode ds)"
  by (simp add: handleCountryCode_def substring_def countryCode_def digits_drop)

lemma digits_handleMobilePrefix: "list_all isDigit ds \<Longrightarrow> list_all isDigit (handleMobilePrefix ds)"
  by (simp add: handleMobilePrefix_def substring_def mobilePrefix_def digits_drop)

lemma length_fitLocalNumber: "length (fitLocalNumber l) = 8"
  by (simp add: fitLocalNumber_def substring_def padStart_def)

lemma digit_zero: "isDigit CHR ''0''" "isDigit CHR ''1''"
  by (simp_all add: isDigit_def)

lemma digits_replicate: "isDigit c \<Longrightarrow> list_all isDigit (replicate n c)"
  by (simp add: list_all_iff)

lemma digits_fitLocalNumber: "list_all isDigit l \<Longrightarrow> list_all isDigit (fitLocalNumber l)"
  by (simp add: fitLocalNumber_def substring_def padStart_def digits_drop digit_zero digits_replicate)

lemma length_areaCode: "length (fst (splitAreaCode ds)) = 2"
  by (simp add: splitAreaCode_def substring2_def defaultAreaCode_def)

lemma digits_splitAreaCode:
  "list_all isDigit ds \<Longrightarrow> list_all isDigit (fst (splitAreaCode ds)) \<and> list_all isDigit (snd (splitAreaCode ds))"
  by (simp add: splitAreaCode_def substring2_def substring_def defaultAreaCode_def digits_drop digits_take digit_zero)

lemma normalize_nonempty:
  "cleanInput s \<noteq> [] \<Longrightarrow>
     normalizePhoneNumber s =
       ''549'' @ fst (splitAreaCode (handleMobilePrefix (handleCountryCode (cleanInput s))))
         @ fitLocalNumber (snd (splitAreaCode (handleMobilePrefix (handleCountryCode (cleanInput s)))))"
  by (auto simp: normalizePhoneNumber_def Let_def countryCode_def mobilePrefix_def cleanInput_def split: prod.splits)

lemma normalize_empty: "cleanInput s = [] \<Longrightarrow> normalizePhoneNumber s = []"
  by (simp add: normalizePhoneNumber_def)

lemma normalize_shape:
  assumes "cleanInput s \<noteq> []"
  shows "\<exists>a l. normalizePhoneNumber s = ''549'' @ a @ l \<and> length a = 2 \<and> length l = 8
           \<and> list_all isDigit a \<and> list_all isDigit l"
proof -
  let ?ds = "handleMobilePrefix (handleCountryCode (cleanInput s))"
  have d: "list_all isDigit ?ds"
    by (intro digits_handleMobilePrefix digits_handleCountryCode)
       (simp add: cleanInput_filter list_all_iff)
  show ?thesis
    using normalize_nonempty[OF assms] length_areaCode[of ?ds] length_fitLocalNumber
      digits_splitAreaCode[OF d] digits_fitLocalNumber
    by blast
qed

lemma normalize_fixed:
  assumes "length a = 2" "length l = 8" "list_all isDigit a" "list_all isDigit l"
  shows "normalizePhoneNumber (''549'' @ a @ l) = ''549'' @ a @ l"
proof -
  have c: "cleanInput (''549'' @ a @ l) = ''549'' @ a @ l"
    using assms by (simp add: cleanInput_filter isDigit_def list_all_iff filter_id_conv)
  have h1: "handleCountryCode (''549'' @ a @ l) = ''9'' @ a @ l"
    by (simp add: handleCountryCode_def startsWith_def substring_def)
  have h2: "handleMobilePrefix (''9'' @ a @ l) = a @ l"
    by (simp add: handleMobilePrefix_def startsWith_def substring_def)
  have h3: "splitAreaCode (a @ l) = (a, l)"
    using assms by (simp add: splitAreaCode_def substring2_def substring_def)
  have h4: "fitLocalNumber l = l"
    using assms by (simp add: fitLocalNumber_def)
  have "cleanInput (''549'' @ a @ l) \<noteq> []" using c by simp
  from normalize_nonempty[OF this] show ?thesis
    unfolding c h1 h2 h3 using h4 by simp
qed

lemma has_digit_clean: "cleanInput s \<noteq> [] \<longleftrightarrow> list_ex isDigit s"
  by (simp add: cleanInput_filter filter_empty_conv list_ex_iff)

lemma normalize_length: "length (normalizePhoneNumber s) = (if list_ex isDigit s then 13 else 0)"
proof (cases "list_ex isDigit s")
  case True
  then have "cleanInput s \<noteq> []" by (simp add: has_digit_clean)
  from normalize_shape[OF this] True show ?thesis by auto
next
  case False
  then have "cleanInput s = []" using has_digit_clean by blast
  then show ?thesis using False by (simp add: normalize_empty)
qed

lemma normalize_digits: "list_all isDigit (normalizePhoneNumber s)"
proof (cases "list_ex isDigit s")
  case True
  then have "cleanInput s \<noteq> []" by (simp add: has_digit_clean)
  from normalize_shape[OF this] show ?thesis by (auto simp: isDigit_def)
next
  case False
  then have "cleanInput s = []" using has_digit_clean by blast
  then show ?thesis by (simp add: normalize_empty)
qed

lemma handler_update:
  "isUpdate req \<Longrightarrow> suppliedPassword req = Some (adminPassword e) \<Longrightarrow>
     handler e req redis = handleUpdate e req (suppliedPhone req) redis"
  by (auto simp: isUpdate_def suppliedPassword_def suppliedPhone_def handler_def handlePost_def
      split: option.splits)

section \<open>Decimal text of the counter\<close>

lemma digitChar_ok: "d < 10 \<Longrightarrow> isDigit (digitChar d) \<and> digitVal (digitChar d) = d"
proof -
  assume "d < 10"
  then have "d \<in> {0, 1, 2, 3, 4, 5, 6, 7, 8, 9}" by auto
  then show ?thesis
    by (auto simp: isDigit_def digitChar_def digitVal_def)
qed

lemma decimal_digits: "list_all isDigit (decimal n)"
proof (induction n rule: decimal.induct)
  case (1 n)
  show ?case
  proof (cases "n < 10")
    case True
    then show ?thesis by (subst decimal.simps) (simp add: digitChar_ok)
  next
    case False
    then show ?thesis using 1 by (subst decimal.simps) (simp add: digitChar_ok)
  qed
qed

lemma decimal_nonempty: "decimal n \<noteq> []"
  by (subst decimal.simps) simp

lemma digitsValue_snoc: "digitsValue (ds @ [c]) = 10 * digitsValue ds + digitVal c"
  by (simp add: digitsValue_def)

lemma digitsValue_decimal: "digitsValue (decimal n) = n"
proof (induction n rule: decimal.induct)
  case (1 n)
  show ?case
  proof (cases "n < 10")
    case True
    then show ?thesis by (subst decimal.simps) (simp add: digitChar_ok digitsValue_def)
  next
    case False
    then show ?thesis using 1
      by (subst decimal.simps) (simp add: digitChar_ok digitsValue_snoc)
  qed
qed

lemma digit_plain: "isDigit c \<Longrightarrow> \<not> isSpace c \<and> c \<noteq> CHR ''-'' \<and> c \<noteq> CHR ''+''"
  unfolding isDigit_def isSpace_def by auto

lemma parseInt10_digits:
  assumes "list_all isDigit ds" "ds \<noteq> []"
  shows "parseInt10 ds = Num (int (digitsValue ds))"
proof -
  obtain c r where ds: "ds = c # r" using assms(2) by (cases ds) auto
  have c: "isDigit c" using assms(1) ds by simp
  have tw: "takeWhile isDigit ds = ds"
    using assms(1) by (simp add: takeWhile_eq_all_conv list_all_iff)
  have dw: "dropWhile isSpace ds = ds"
    using digit_plain[OF c] ds by simp
  show ?thesis
    unfolding parseInt10_def dw Let_def
    using digit_plain[OF c] tw assms(2) by (simp add: ds)
qed

lemma parseInt10_decimal: "parseInt10 (decimal n) = Num (int n)"
  by (simp add: parseInt10_digits decimal_digits decimal_nonempty digitsValue_decimal)

lemma readCount_numToString: "0 \<le> n \<Longrightarrow> readCount (Some (numToString (Num n))) = Num n"
  by (simp add: readCount_def numToString_def decimal_nonempty parseInt10_decimal)

lemma nextCount_readCount: "readCount v = Num n \<Longrightarrow> nextCount v = Num (n + 1)"
  by (auto simp: readCount_def nextCount_def plusOne_def split: option.splits if_splits)

lemma keys_differ: "phoneKey ns \<noteq> countKey ns" "countKey ns \<noteq> phoneKey ns"
  by (simp_all add: phoneKey_def countKey_def)


section \<open>What an update and a reset do to the store\<close>

lemmas client_ops = redis_get_def redis_set_def called_def

lemma handleUpdate_success:
  assumes "handleUpdate e req p redis = (res, redis')" "status res = 200"
  shows "\<exists>c c'. redis = Some c \<and> redis' = Some c' \<and> truthy p \<and>
           kv c' = (kv c)(phoneKey (getRedisNamespace e req) \<mapsto> normalizePhoneNumber (orElse p []),
                          countKey (getRedisNamespace e req) \<mapsto>
                            numToString (nextCount (kv c (countKey (getRedisNamespace e req))))) \<and>
           payload res = UpdateOk (nextCount (kv c (countKey (getRedisNamespace e req))))
                           (normalizePhoneNumber (orElse p []))"
  using assms
  by (auto simp: handleUpdate_def client_ops saveFailed_def Let_def keys_differ
      split: if_splits option.splits fault.splits)

lemma handleUpdate_failure:
  assumes "handleUpdate e req p redis = (res, redis')" "status res = 500"
  shows "storedCount e req redis' = storedCount e req redis \<and>
         (if firstCallSucceeds redis
          then storedPhone e req redis' = Some (normalizePhoneNumber (orElse p []))
          else storedPhone e req redis' = storedPhone e req redis)"
  using assms
  by (auto simp: handleUpdate_def client_ops saveFailed_def Let_def keys_differ storedCount_def
        storedPhone_def firstCallSucceeds_def
      split: if_splits option.splits fault.splits)

lemma handleUpdate_counter_moves:
  assumes "handleUpdate e req p redis = (res, redis')"
    "storedCount e req redis' \<noteq> storedCount e req redis"
  shows "status res = 200 \<and> storedPhone e req redis' = Some (normalizePhoneNumber (orElse p []))"
  using assms
  by (auto simp: handleUpdate_def client_ops saveFailed_def Let_def keys_differ storedCount_def
        storedPhone_def
      split: if_splits option.splits fault.splits)

lemma handleUpdate_status:
  "status (fst (handleUpdate e req p redis)) = 400 \<longleftrightarrow>
     (\<not> truthy p \<or> length (normalizePhoneNumber (orElse p [])) \<noteq> 13)"
  by (auto simp: handleUpdate_def client_ops saveFailed_def Let_def
      split: if_splits option.splits fault.splits)

lemma handleReset_success:
  assumes "handleReset e req redis = (res, redis')" "status res = 200"
  shows "\<exists>c c'. redis = Some c \<and> redis' = Some c' \<and>
           kv c' = (kv c)(countKey (getRedisNamespace e req) \<mapsto> ''0'') \<and>
           payload res = ResetOk (Num 0)"
  using assms
  by (auto simp: handleReset_def client_ops Let_def split: if_splits option.splits fault.splits)

lemma handler_update_outcome:
  assumes "isUpdate req" "handler e req redis = (res, redis')" "status res = 200"
  shows "storedCount e req redis' = Some (numToString (nextCount (storedCount e req redis))) \<and>
         storedPhone e req redis' = Some (normalizePhoneNumber (orElse (suppliedPhone req) [])) \<and>
         payload res = UpdateOk (nextCount (storedCount e req redis))
                         (normalizePhoneNumber (orElse (suppliedPhone req) []))"
proof -
  obtain b where b: "body req = Some b" "\<not> reset b" "httpMethod req = ''POST''"
    using assms(1) by (auto simp: isUpdate_def split: option.splits)
  have pw: "password b = Some (adminPassword e)"
    using assms(2,3) b by (auto simp: handler_def handlePost_def split: if_splits)
  then have "handleUpdate e req (suppliedPhone req) redis = (res, redis')"
    using assms(2) b by (simp add: handler_def handlePost_def suppliedPhone_def)
  from handleUpdate_success[OF this assms(3)] show ?thesis
    by (auto simp: storedCount_def storedPhone_def keys_differ)
qed

section \<open>The claims about the normaliser\<close>

text \<open>
  Claim C1. Every string of 6 to 13 digits that is not already 13 digits long is
  normalised to a string of exactly 13 characters, all of them digits (it matches
  \<^verbatim>\<open>^\d{13}$\<close>).
\<close>

theorem normalize_pure_digits:
  assumes "list_all isDigit s" "6 \<le> length s" "length s \<le> 13" "length s \<noteq> 13"
  shows "length (normalizePhoneNumber s) = 13 \<and> list_all isDigit (normalizePhoneNumber s)"
proof -
  have "filter isDigit s = s" using assms(1) by (simp add: list_all_iff)
  with assms(2) have "cleanInput s \<noteq> []" by (auto simp: cleanInput_filter)
  from normalize_shape[OF this] show ?thesis by (auto simp: digit_zero isDigit_def)
qed

theorem normalize_pure_digits_witness:
  "list_all isDigit ''43443600'' \<and> 6 \<le> length ''43443600'' \<and> length ''43443600'' \<le> 13 \<and>
   length ''43443600'' \<noteq> 13 \<and> length (normalizePhoneNumber ''43443600'') = 13 \<and>
   list_all isDigit (normalizePhoneNumber ''43443600'')"
  using normalize_pure_digits[of "''43443600''"] by (simp add: isDigit_def)

text \<open>
  Claim C2. The claim asks that an input with fewer than 6 local digits is rejected by
  the length check of the update. The code pads the local number with zeros before
  the check (lines 114 to 117), so the check passes: the input \<^verbatim>\<open>1\<close> leaves the single
  local digit 1 after the country code and mobile prefix steps, and the update answers
  200 and stores 5491100000001. The message of line 228 says that a number needs at least
  6 local digits.
\<close>

theorem short_input_is_stored:
  "handleMobilePrefix (handleCountryCode (cleanInput ''1'')) = ''1'' \<and>
   fst (handler env0 (updateRequest ''admin123'' ''1'') (Some emptyStore)) =
     \<lparr>status = 200, payload = UpdateOk (Num 1) ''5491100000001''\<rparr> \<and>
   storedPhone env0 (updateRequest ''admin123'' ''1'')
     (snd (handler env0 (updateRequest ''admin123'' ''1'') (Some emptyStore))) =
     Some ''5491100000001''"
  by (simp add: example_inputs handler_steps normalize_steps observers Let_def replicate_numeral_step)

text \<open>
  Claim C3. Every input with at least one digit is normalised to exactly 13 digits; the
  single digit \<^verbatim>\<open>1\<close> gives 5491100000001. The normaliser's output fails the length
  check exactly when the input is empty or has no digit. In the handler, for an update
  with the right password, the answer is a 400 exactly when the phone is falsy or has no
  digit; the falsy ones are stopped by the check of line 219, the others by the length
  check of line 227.
\<close>

theorem normalize_any_digit:
  "(list_ex isDigit s \<longrightarrow>
      length (normalizePhoneNumber s) = 13 \<and> list_all isDigit (normalizePhoneNumber s)) \<and>
   normalizePhoneNumber ''1'' = ''5491100000001'' \<and>
   (length (normalizePhoneNumber s) \<noteq> 13 \<longleftrightarrow> (s = [] \<or> \<not> list_ex isDigit s)) \<and>
   (isUpdate req \<and> suppliedPassword req = Some (adminPassword e) \<longrightarrow>
      (status (fst (handler e req redis)) = 400 \<longleftrightarrow>
         (\<not> truthy (suppliedPhone req) \<or> \<not> list_ex isDigit (orElse (suppliedPhone req) []))) \<and>
      (fst (handler e req redis) = \<lparr>status = 400, payload = Failure InvalidPhone\<rparr> \<longleftrightarrow>
         (truthy (suppliedPhone req) \<and> \<not> list_ex isDigit (orElse (suppliedPhone req) []))))"
proof -
  have a: "normalizePhoneNumber ''1'' = ''5491100000001''"
    by (simp add: normalize_steps replicate_numeral_step)
  have b: "length (normalizePhoneNumber s) \<noteq> 13 \<longleftrightarrow> (s = [] \<or> \<not> list_ex isDigit s)"
    by (auto simp: normalize_length)
  have c: "fst (handleUpdate e req p redis) = \<lparr>status = 400, payload = Failure InvalidPhone\<rparr> \<longleftrightarrow>
             (truthy p \<and> \<not> list_ex isDigit (orElse p []))" for p
    by (auto simp: handleUpdate_def redis_get_def redis_set_def saveFailed_def Let_def normalize_length
        split: if_splits option.splits fault.splits)
  show ?thesis
    using a b c by (auto simp: normalize_length normalize_digits handler_update handleUpdate_status)
qed

theorem normalize_any_digit_witness:
  "list_ex isDigit ''tel: 7'' \<and> length (normalizePhoneNumber ''tel: 7'') = 13 \<and>
   list_all isDigit (normalizePhoneNumber ''tel: 7'') \<and>
   isUpdate (updateRequest ''admin123'' ''n/a'') \<and>
   suppliedPassword (updateRequest ''admin123'' ''n/a'') = Some (adminPassword env0) \<and>
   fst (handler env0 (updateRequest ''admin123'' ''n/a'') (Some emptyStore)) =
     \<lparr>status = 400, payload = Failure InvalidPhone\<rparr>"
  using normalize_any_digit[of "''tel: 7''" "updateRequest ''admin123'' ''n/a''" env0 "Some emptyStore"]
  by (simp add: eval_simps)

text \<open>
  Claim C4. The normaliser is idempotent on its own output: when the normalisation of
  \<open>x\<close> is a string of 13 digits, normalising it again returns it unchanged.
\<close>

theorem normalize_idempotent:
  assumes "length (normalizePhoneNumber x) = 13" "list_all isDigit (normalizePhoneNumber x)"
  shows "normalizePhoneNumber (normalizePhoneNumber x) = normalizePhoneNumber x"
proof -
  have "cleanInput x \<noteq> []"
    using assms(1) normalize_empty[of x] by auto
  from normalize_shape[OF this] obtain a l where
    "normalizePhoneNumber x = ''549'' @ a @ l" "length a = 2" "length l = 8"
    "list_all isDigit a" "list_all isDigit l"
    by blast
  then show ?thesis using normalize_fixed[of a l] by simp
qed

theorem normalize_idempotent_witness:
  "length (normalizePhoneNumber ''(11) 1234-5678'') = 13 \<and>
   list_all isDigit (normalizePhoneNumber ''(11) 1234-5678'') \<and>
   normalizePhoneNumber (normalizePhoneNumber ''(11) 1234-5678'') = ''5491112345678''"
  using normalize_idempotent[of "''(11) 1234-5678''"]
  by (simp add: normalize_steps)

text \<open>
  Claim C5. The normaliser maps each example of the specification to the stated
  13-digit identifier: \<^verbatim>\<open>+54 11 4344 3600\<close> to 5491143443600,
  \<^verbatim>\<open>11 1234 5678\<close> to 5491112345678, \<^verbatim>\<open>15 1234 5678\<close> to 5491512345678,
  591157542802 to 5491157542802 and \<^verbatim>\<open>(11) 1234-5678\<close> to 5491112345678.
\<close>

theorem normalize_examples:
  "normalizePhoneNumber ''+54 11 4344 3600'' = ''5491143443600'' \<and>
   normalizePhoneNumber ''11 1234 5678'' = ''5491112345678'' \<and>
   normalizePhoneNumber ''15 1234 5678'' = ''5491512345678'' \<and>
   normalizePhoneNumber ''591157542802'' = ''5491157542802'' \<and>
   normalizePhoneNumber ''(11) 1234-5678'' = ''5491112345678''"
  by (simp add: normalize_steps)

section \<open>The claims about the handler\<close>

text \<open>
  Claim C6. A successful update increments the stored counter by exactly 1, an absent
  (or empty) stored value counting as 0. The stored counter is read the way the GET
  path reads it (\<open>readCount\<close>); \<open>safeCount\<close> keeps the counter in the range where a
  double holds it and its successor exactly. Two successive successful updates in one
  namespace, starting with no stored counter, store 1 and then 2 and report these
  values.
\<close>

theorem update_increments_counter:
  "(isUpdate req \<and> handler e req redis = (res, redis') \<and> status res = 200 \<and>
    readCount (storedCount e req redis) = Num n \<and> safeCount n \<longrightarrow>
      storedCount e req redis' = Some (numToString (Num (n + 1))) \<and>
      readCount (storedCount e req redis') = Num (n + 1) \<and>
      payload res = UpdateOk (Num (n + 1)) (normalizePhoneNumber (orElse (suppliedPhone req) []))) \<and>
   (isUpdate reqA \<and> isUpdate reqB \<and> getRedisNamespace e reqB = getRedisNamespace e reqA \<and>
    storedCount e reqA redis = None \<and>
    handler e reqA redis = (resA, redisA) \<and> status resA = 200 \<and>
    handler e reqB redisA = (resB, redisB) \<and> status resB = 200 \<longrightarrow>
      storedCount e reqA redisA = Some ''1'' \<and> storedCount e reqA redisB = Some ''2'' \<and>
      payload resA = UpdateOk (Num 1) (normalizePhoneNumber (orElse (suppliedPhone reqA) [])) \<and>
      payload resB = UpdateOk (Num 2) (normalizePhoneNumber (orElse (suppliedPhone reqB) [])))"
proof -
  have step:
    "storedCount e r rd' = Some (numToString (Num (m + 1)))"
    "readCount (storedCount e r rd') = Num (m + 1)"
    "payload rs = UpdateOk (Num (m + 1)) (normalizePhoneNumber (orElse (suppliedPhone r) []))"
    if "isUpdate r" "handler e r rd = (rs, rd')" "status rs = 200"
       "readCount (storedCount e r rd) = Num m" "0 \<le> m" for r rd rs rd' m
    using handler_update_outcome[OF that(1,2,3)] nextCount_readCount[OF that(4)] that(5)
    by (simp_all add: readCount_numToString)
  have one: "numToString (Num (0 + 1)) = ''1''" "numToString (Num (1 + 1)) = ''2''"
    by (simp_all add: numToString_def decimal.simps digitChar_def)
  have part1: "storedCount e req redis' = Some (numToString (Num (n + 1))) \<and>
      readCount (storedCount e req redis') = Num (n + 1) \<and>
      payload res = UpdateOk (Num (n + 1)) (normalizePhoneNumber (orElse (suppliedPhone req) []))"
    if "isUpdate req" "handler e req redis = (res, redis')" "status res = 200"
       "readCount (storedCount e req redis) = Num n" "safeCount n"
  proof -
    have "0 \<le> n" using that(5) by (simp add: safeCount_def)
    from step[OF that(1,2,3,4) this] show ?thesis by blast
  qed
  have part2: "storedCount e reqA redisA = Some ''1'' \<and> storedCount e reqA redisB = Some ''2'' \<and>
      payload resA = UpdateOk (Num 1) (normalizePhoneNumber (orElse (suppliedPhone reqA) [])) \<and>
      payload resB = UpdateOk (Num 2) (normalizePhoneNumber (orElse (suppliedPhone reqB) []))"
    if h: "isUpdate reqA" "isUpdate reqB"
      "getRedisNamespace e reqB = getRedisNamespace e reqA" "storedCount e reqA redis = None"
      "handler e reqA redis = (resA, redisA)" "status resA = 200"
      "handler e reqB redisA = (resB, redisB)" "status resB = 200"
  proof -
    have same: "storedCount e reqB rd = storedCount e reqA rd" for rd
      unfolding storedCount_def h(3) by (rule refl)
    have zero: "readCount (storedCount e reqA redis) = Num 0"
      using h(4) by (simp add: readCount_def)
    note a = step[OF h(1) h(5) h(6) zero order_refl]
    have a1: "storedCount e reqA redisA = Some ''1''"
      using a(1) one(1) by simp
    have a2: "readCount (storedCount e reqB redisA) = Num 1"
      using a(2) same by simp
    have a3: "payload resA = UpdateOk (Num 1) (normalizePhoneNumber (orElse (suppliedPhone reqA) []))"
      using a(3) by simp
    note b = step[OF h(2) h(7) h(8) a2 zero_le_one]
    have b1: "storedCount e reqA redisB = Some ''2''"
      using b(1) one(2) same by simp
    have b3: "payload resB = UpdateOk (Num 2) (normalizePhoneNumber (orElse (suppliedPhone reqB) []))"
      using b(3) by simp
    show ?thesis using a1 a3 b1 b3 by blast
  qed
  show ?thesis
    using part1 part2 by blast
qed

theorem update_increments_counter_witness:
  "isUpdate (updateRequest ''admin123'' ''11 1234 5678'') \<and>
   isUpdate (updateRequest ''admin123'' ''15 1234 5678'') \<and>
   storedCount env0 (updateRequest ''admin123'' ''11 1234 5678'') (Some emptyStore) = None \<and>
   status (fst (handler env0 (updateRequest ''admin123'' ''11 1234 5678'') (Some emptyStore))) = 200 \<and>
   status (fst (handler env0 (updateRequest ''admin123'' ''15 1234 5678'')
     (snd (handler env0 (updateRequest ''admin123'' ''11 1234 5678'') (Some emptyStore))))) = 200 \<and>
   storedCount env0 (updateRequest ''admin123'' ''11 1234 5678'')
     (snd (handler env0 (updateRequest ''admin123'' ''11 1234 5678'') (Some emptyStore))) = Some ''1'' \<and>
   storedCount env0 (updateRequest ''admin123'' ''11 1234 5678'')
     (snd (handler env0 (updateRequest ''admin123'' ''15 1234 5678'')
       (snd (handler env0 (updateRequest ''admin123'' ''11 1234 5678'') (Some emptyStore))))) = Some ''2'' \<and>
   readCount (storedCount env0 (updateRequest ''admin123'' ''11 1234 5678'') (Some usedStore)) = Num 5 \<and>
   safeCount 5 \<and>
   status (fst (handler env0 (updateRequest ''admin123'' ''11 1234 5678'') (Some usedStore))) = 200 \<and>
   storedCount env0 (updateRequest ''admin123'' ''11 1234 5678'')
     (snd (handler env0 (updateRequest ''admin123'' ''11 1234 5678'') (Some usedStore))) = Some ''6''"
proof -
  let ?a = "updateRequest ''admin123'' ''11 1234 5678''"
  let ?b = "updateRequest ''admin123'' ''15 1234 5678''"
  let ?ra = "handler env0 ?a (Some emptyStore)"
  let ?rb = "handler env0 ?b (snd ?ra)"
  have h: "isUpdate ?a" "isUpdate ?b" "getRedisNamespace env0 ?b = getRedisNamespace env0 ?a"
    "storedCount env0 ?a (Some emptyStore) = None"
    by (simp_all add: eval_simps)
  have sa: "status (fst ?ra) = 200"
    by (simp add: eval_simps)
  have sb: "status (fst ?rb) = 200"
    by (simp add: eval_simps)
  have prem: "isUpdate ?a \<and> isUpdate ?b \<and>
      getRedisNamespace env0 ?b = getRedisNamespace env0 ?a \<and>
      storedCount env0 ?a (Some emptyStore) = None \<and>
      handler env0 ?a (Some emptyStore) = (fst ?ra, snd ?ra) \<and> status (fst ?ra) = 200 \<and>
      handler env0 ?b (snd ?ra) = (fst ?rb, snd ?rb) \<and> status (fst ?rb) = 200"
    using h sa sb by (intro conjI) simp_all
  have concl: "storedCount env0 ?a (snd ?ra) = Some ''1'' \<and> storedCount env0 ?a (snd ?rb) = Some ''2'' \<and>
      payload (fst ?ra) = UpdateOk (Num 1) (normalizePhoneNumber (orElse (suppliedPhone ?a) [])) \<and>
      payload (fst ?rb) = UpdateOk (Num 2) (normalizePhoneNumber (orElse (suppliedPhone ?b) []))"
    by (rule update_increments_counter[THEN conjunct2, THEN mp, OF prem])
  let ?ru = "handler env0 ?a (Some usedStore)"
  have u: "readCount (storedCount env0 ?a (Some usedStore)) = Num 5" "safeCount 5"
    "status (fst ?ru) = 200"
    by (simp_all add: eval_simps)
  have six: "numToString (Num (5 + 1)) = ''6''"
    by (simp add: numToString_def decimal.simps digitChar_def)
  have premU: "isUpdate ?a \<and> handler env0 ?a (Some usedStore) = (fst ?ru, snd ?ru) \<and>
      status (fst ?ru) = 200 \<and> readCount (storedCount env0 ?a (Some usedStore)) = Num 5 \<and>
      safeCount 5"
    using h(1) u by (intro conjI) simp_all
  have "storedCount env0 ?a (snd ?ru) = Some (numToString (Num (5 + 1)))"
    by (rule update_increments_counter[THEN conjunct1, THEN mp, OF premU, THEN conjunct1])
  then have conclU: "storedCount env0 ?a (snd ?ru) = Some ''6''"
    unfolding six .
  show ?thesis using h(1,2,4) sa sb concl u conclU by blast
qed

text \<open>
  Claim C7. Whatever the counter was before, a successful reset stores the counter 0 and
  leaves the stored phone number as it was.
\<close>

theorem reset_zeroes_counter:
  assumes "isReset req" "handler e req redis = (res, redis')" "status res = 200"
  shows "storedCount e req redis' = Some ''0'' \<and>
         readCount (storedCount e req redis') = Num 0 \<and>
         storedPhone e req redis' = storedPhone e req redis \<and>
         payload res = ResetOk (Num 0)"
proof -
  obtain b where b: "body req = Some b" "reset b" "httpMethod req = ''POST''"
    using assms(1) by (auto simp: isReset_def split: option.splits)
  have "handleReset e req redis = (res, redis')"
    using assms(2,3) b by (auto simp: handler_def handlePost_def split: if_splits)
  from handleReset_success[OF this assms(3)] obtain c c' where
    c: "redis = Some c" "redis' = Some c'"
       "kv c' = (kv c)(countKey (getRedisNamespace e req) \<mapsto> ''0'')"
       "payload res = ResetOk (Num 0)"
    by blast
  have z: "readCount (Some ''0'') = Num 0"
    by (simp add: readCount_def parseInt10_def isSpace_def isDigit_def digitsValue_def digitVal_def)
  show ?thesis
    using c z by (simp add: storedCount_def storedPhone_def keys_differ)
qed

theorem reset_zeroes_counter_witness:
  "isReset (resetRequest ''admin123'') \<and>
   status (fst (handler env0 (resetRequest ''admin123'') (Some usedStore))) = 200 \<and>
   storedCount env0 (resetRequest ''admin123'') (Some usedStore) = Some ''5'' \<and>
   storedCount env0 (resetRequest ''admin123'')
     (snd (handler env0 (resetRequest ''admin123'') (Some usedStore))) = Some ''0'' \<and>
   storedPhone env0 (resetRequest ''admin123'')
     (snd (handler env0 (resetRequest ''admin123'') (Some usedStore))) = Some ''5491143443600''"
proof -
  let ?r = "resetRequest ''admin123''"
  let ?h = "handler env0 ?r (Some usedStore)"
  have h: "isReset ?r" "status (fst ?h) = 200"
    "storedCount env0 ?r (Some usedStore) = Some ''5''"
    "storedPhone env0 ?r (Some usedStore) = Some ''5491143443600''"
    by (simp_all add: eval_simps)
  have "handler env0 ?r (Some usedStore) = (fst ?h, snd ?h)" by simp
  from reset_zeroes_counter[OF h(1) this h(2)] show ?thesis
    using h by simp
qed

text \<open>
  Claim C8. A POST whose password differs from the administrator password (or has none)
  is answered with 401 and the wrong-password error; the client is returned as it was:
  no call is made, and the stored phone number and counter are unchanged.
\<close>

theorem wrong_password_rejected:
  assumes "httpMethod req = ''POST''" "body req = Some b" "password b \<noteq> Some (adminPassword e)"
  shows "handler e req redis = (\<lparr>status = 401, payload = Failure WrongPassword\<rparr>, redis) \<and>
         storedPhone e req (snd (handler e req redis)) = storedPhone e req redis \<and>
         storedCount e req (snd (handler e req redis)) = storedCount e req redis \<and>
         callsMade (snd (handler e req redis)) = callsMade redis"
  using assms by (simp add: handler_def handlePost_def)

theorem wrong_password_rejected_witness:
  "httpMethod (updateRequest ''guess'' ''11 1234 5678'') = ''POST'' \<and>
   suppliedPassword (updateRequest ''guess'' ''11 1234 5678'') = Some ''guess'' \<and>
   adminPassword env0 = ''admin123'' \<and>
   handler env0 (updateRequest ''guess'' ''11 1234 5678'') (Some usedStore) =
     (\<lparr>status = 401, payload = Failure WrongPassword\<rparr>, Some usedStore)"
  using wrong_password_rejected[of "updateRequest ''guess'' ''11 1234 5678''"
      "\<lparr>phone = Some ''11 1234 5678'', password = Some ''guess'', reset = False\<rparr>" env0
      "Some usedStore"]
  by (simp add: updateRequest_def env0_def adminPassword_def orElse_def suppliedPassword_def)

text \<open>
  Claim C9, as amended. The claim says that an update that reports a store failure
  leaves both the stored phone number and the counter unchanged. The handler has no
  transaction: it writes the phone number, then reads the counter, then writes it, and
  a failure of the second or third call is reported after the phone number has been
  overwritten. What holds: when an update answers 500, the stored counter is unchanged;
  the stored phone number is unchanged when there is no store or the first call (the
  write of the phone number) throws, and otherwise it already holds the newly
  normalised number. The counter only changes in an update that answers 200, and then
  the phone number has been written.
\<close>

theorem failed_update_keeps_counter:
  assumes "isUpdate req" "handler e req redis = (res, redis')"
  shows "(status res = 500 \<longrightarrow>
            storedCount e req redis' = storedCount e req redis \<and>
            (if firstCallSucceeds redis
             then storedPhone e req redis' = Some (normalizePhoneNumber (orElse (suppliedPhone req) []))
             else storedPhone e req redis' = storedPhone e req redis)) \<and>
         (storedCount e req redis' \<noteq> storedCount e req redis \<longrightarrow>
            status res = 200 \<and>
            storedPhone e req redis' = Some (normalizePhoneNumber (orElse (suppliedPhone req) [])))"
proof -
  obtain b where b: "body req = Some b" "\<not> reset b" "httpMethod req = ''POST''"
    using assms(1) by (auto simp: isUpdate_def split: option.splits)
  show ?thesis
  proof (cases "password b = Some (adminPassword e)")
    case True
    then have "handleUpdate e req (suppliedPhone req) redis = (res, redis')"
      using assms(2) b by (simp add: handler_def handlePost_def suppliedPhone_def)
    then show ?thesis
      using handleUpdate_failure handleUpdate_counter_moves by blast
  next
    case False
    then have "res = \<lparr>status = 401, payload = Failure WrongPassword\<rparr>" "redis' = redis"
      using assms(2) b by (auto simp: handler_def handlePost_def)
    then show ?thesis by simp
  qed
qed

theorem failed_update_keeps_counter_witness:
  "isUpdate (updateRequest ''admin123'' ''11 1234 5678'') \<and>
   status (fst (handler env0 (updateRequest ''admin123'' ''11 1234 5678'') (Some downStore))) = 500 \<and>
   storedCount env0 (updateRequest ''admin123'' ''11 1234 5678'')
     (snd (handler env0 (updateRequest ''admin123'' ''11 1234 5678'') (Some downStore))) = Some ''5'' \<and>
   storedPhone env0 (updateRequest ''admin123'' ''11 1234 5678'')
     (snd (handler env0 (updateRequest ''admin123'' ''11 1234 5678'') (Some downStore))) =
     Some ''5491143443600'' \<and>
   storedCount env0 (updateRequest ''admin123'' ''11 1234 5678'')
     (snd (handler env0 (updateRequest ''admin123'' ''11 1234 5678'') (Some usedStore))) \<noteq>
     storedCount env0 (updateRequest ''admin123'' ''11 1234 5678'') (Some usedStore) \<and>
   storedPhone env0 (updateRequest ''admin123'' ''11 1234 5678'')
     (snd (handler env0 (updateRequest ''admin123'' ''11 1234 5678'') (Some usedStore))) =
     Some (normalizePhoneNumber ''11 1234 5678'')"
proof -
  let ?r = "updateRequest ''admin123'' ''11 1234 5678''"
  let ?h = "handler env0 ?r (Some downStore)"
  let ?u = "handler env0 ?r (Some usedStore)"
  have h: "isUpdate ?r" "status (fst ?h) = 500"
    "storedCount env0 ?r (Some downStore) = Some ''5''"
    "storedPhone env0 ?r (Some downStore) = Some ''5491143443600''"
    "\<not> firstCallSucceeds (Some downStore)"
    by (simp_all add: eval_simps)
  have moved: "storedCount env0 ?r (snd ?u) \<noteq> storedCount env0 ?r (Some usedStore)"
    by (simp add: eval_simps)
  have sp: "orElse (suppliedPhone ?r) [] = ''11 1234 5678''"
    by (simp add: updateRequest_def suppliedPhone_def orElse_def)
  have ph: "handler env0 ?r (Some downStore) = (fst ?h, snd ?h)" by simp
  have pu: "handler env0 ?r (Some usedStore) = (fst ?u, snd ?u)" by simp
  note down = failed_update_keeps_counter[OF h(1) ph, THEN conjunct1, THEN mp, OF h(2)]
  note up = failed_update_keeps_counter[OF h(1) pu, THEN conjunct2, THEN mp, OF moved]
  have d1: "storedCount env0 ?r (snd ?h) = Some ''5''"
    using down[THEN conjunct1] h(3) by simp
  have d2: "storedPhone env0 ?r (snd ?h) = Some ''5491143443600''"
    using down[THEN conjunct2] h(4,5) by simp
  have u2: "storedPhone env0 ?r (snd ?u) = Some (normalizePhoneNumber ''11 1234 5678'')"
    using up[THEN conjunct2] sp by simp
  show ?thesis using h(1,2) d1 d2 moved u2 by blast
qed

text \<open>
  Claim C9, the counterexample. The store holds 5491143443600; the write of the phone
  number returns and the read of the counter throws. The update answers 500 and the
  stored phone number is now 5491112345678.
\<close>

theorem failed_update_partial_write:
  "status (fst (handler env0 (updateRequest ''admin123'' ''11 1234 5678'') (Some flakyStore))) = 500 \<and>
   storedPhone env0 (updateRequest ''admin123'' ''11 1234 5678'') (Some flakyStore) =
     Some ''5491143443600'' \<and>
   storedPhone env0 (updateRequest ''admin123'' ''11 1234 5678'')
     (snd (handler env0 (updateRequest ''admin123'' ''11 1234 5678'') (Some flakyStore))) =
     Some ''5491112345678''"
  by (simp add: eval_simps)

text \<open>
  Claim C10, as amended. The claim says that a read during which the store fails
  answers with the configured default phone number. The handler keeps a phone number
  it has already read when the read of the counter throws. What holds: when there is no
  store, or one of the two calls of a read throws, the answer is a 200 with the
  configured message and the counter 0; the phone is the configured default, unless the
  read of the phone number returned a non-empty value before the read of the counter
  threw, in which case it is that stored number.
\<close>

theorem read_degrades_on_failure:
  assumes "httpMethod req = ''GET''" "failsDuringRead redis"
  shows "fst (handler e req redis) =
           \<lparr>status = 200,
            payload = ReadOk (if firstCallSucceeds redis
                              then orElse (storedPhone e req redis) (defaultPhone e)
                              else defaultPhone e)
                        (defaultMessage e) (Num 0)\<rparr>"
  using assms
  by (auto simp: handler_def handleGet_def failsDuringRead_def firstCallSucceeds_def storedPhone_def
        redis_get_def called_def nextFault_def orElse_def Let_def
      split: option.splits list.splits fault.splits)

theorem read_degrades_on_failure_witness:
  "httpMethod getRequest = ''GET'' \<and> failsDuringRead (Some downStore) \<and>
   fst (handler env0 getRequest (Some downStore)) =
     \<lparr>status = 200, payload = ReadOk ''5491157552283'' ''Hola'' (Num 0)\<rparr> \<and>
   failsDuringRead None \<and>
   fst (handler env0 getRequest None) =
     \<lparr>status = 200, payload = ReadOk ''5491157552283'' ''Hola'' (Num 0)\<rparr>"
  using read_degrades_on_failure[of getRequest "Some downStore" env0]
    read_degrades_on_failure[of getRequest None env0]
  by (simp add: eval_simps)

text \<open>
  Claim C10, the counterexample. The store holds 5491143443600, the read of the phone
  number returns and the read of the counter throws: the answer carries the stored
  number, not the default 5491157552283.
\<close>

theorem read_returns_stored_phone_on_failure:
  "httpMethod getRequest = ''GET'' \<and> failsDuringRead (Some flakyStore) \<and>
   fst (handler env0 getRequest (Some flakyStore)) =
     \<lparr>status = 200, payload = ReadOk ''5491143443600'' ''Hola'' (Num 0)\<rparr> \<and>
   defaultPhone env0 = ''5491157552283''"
  by (simp add: eval_simps)

end
